theory Spec2Isabelle
  imports Main
begin

section \<open>The view controller of \<^verbatim>\<open>src/frontend/script.js\<close>\<close>

text \<open>
  The script fetches players, matches and match statistics from an HTTP API and writes
  them into four DOM containers. The model below follows the script function by
  function. What the script takes from its surroundings is made explicit:
  \<^item> values that arrive as JSON are \<open>jsval\<close>s, with the property reads, the truth test
    and the string conversion JavaScript applies to them;
  \<^item> an exception is a value of type \<open>error\<close>; a block of statements that can throw
    returns \<open>error option \<times> world\<close>: the exception that left the block, if any, and
    the page as the block left it;
  \<^item> the page is a record \<open>world\<close>: the children of the four containers, the values
    of the form's inputs, the requests sent so far, the console and the alerts shown;
  \<^item> the server is a function \<open>network\<close> that answers a request, given the requests
    sent before it.
  Each \<^verbatim>\<open>async\<close> function is modelled as running from its call to its end: what other
  handlers do while it waits at an \<^verbatim>\<open>await\<close> is outside the model. So are the two
  listeners for \<^verbatim>\<open>DOMContentLoaded\<close>, which write the footer and start the first
  \<^verbatim>\<open>loadPlayers\<close> and \<^verbatim>\<open>loadMatches\<close> side by side.
\<close>

subsection \<open>JavaScript values\<close>

text \<open>
  A number is held as its text, the string JavaScript's conversion of a number to a
  string gives for it: \<^verbatim>\<open>3\<close>, \<^verbatim>\<open>-12\<close>, \<^verbatim>\<open>1.75\<close>, \<^verbatim>\<open>1e+21\<close>, \<^verbatim>\<open>NaN\<close>, \<^verbatim>\<open>Infinity\<close>. Every
  number has one text, and different numbers have different texts, except that the two
  zeros share the text \<^verbatim>\<open>0\<close>; the script converts numbers to strings and tests them
  against zero, and does nothing that tells the two zeros apart. \<open>Obj\<close> holds the own
  properties of a parsed JSON object; the first binding of a key is the property's
  value. A string is a list of characters in which the script only looks at whether it
  is empty.
\<close>

type_synonym number = string

datatype jsval =
    Undefined
  | Null
  | Bool bool
  | Num number
  | Str string
  | Arr "jsval list"
  | Obj "(string \<times> jsval) list"

text \<open>
  Exceptions. \<open>TypeError\<close> is what the engine raises (and what a failed \<^verbatim>\<open>fetch\<close> rejects
  with), \<open>SyntaxError\<close> what \<^verbatim>\<open>res.json()\<close> rejects with on a body that is not JSON,
  \<open>Error\<close> what the script throws itself. The messages of engine-raised errors are those
  of V8; the script reads no message of an engine-raised error.
\<close>

datatype error = TypeError string | SyntaxError string | Error string

fun message :: "error \<Rightarrow> string" where
  "message (TypeError m) = m"
| "message (SyntaxError m) = m"
| "message (Error m) = m"

text \<open>The truth test of \<^verbatim>\<open>c ? a : b\<close> and \<^verbatim>\<open>!v\<close>.\<close>

fun truthy :: "jsval \<Rightarrow> bool" where
  "truthy Undefined = False"
| "truthy Null = False"
| "truthy (Bool b) = b"
| "truthy (Num t) = (t \<noteq> ''0'' \<and> t \<noteq> ''NaN'')"
| "truthy (Str s) = (s \<noteq> [])"
| "truthy (Arr xs) = True"
| "truthy (Obj kvs) = True"

text \<open>
  The text of a length. The length of a string or an array is a natural number far below
  \<^verbatim>\<open>1e21\<close>, and JavaScript prints such a number as its decimal numeral.
\<close>

fun show_nat :: "nat \<Rightarrow> string" where
  "show_nat n = (if n < 10 then [''0123456789'' ! n] else show_nat (n div 10) @ [''0123456789'' ! (n mod 10)])"

declare show_nat.simps [simp del]

text \<open>
  The property read \<^verbatim>\<open>v.k\<close>, for the property names the script reads. None of them is
  inherited from a prototype, except \<^verbatim>\<open>length\<close> of strings and arrays (and \<^verbatim>\<open>forEach\<close> of
  arrays, which \<open>forEach\<close> below models). Reading a property of \<^verbatim>\<open>null\<close> or \<^verbatim>\<open>undefined\<close>
  throws.
\<close>

fun get_prop :: "jsval \<Rightarrow> string \<Rightarrow> error + jsval" where
  "get_prop Undefined k =
     Inl (TypeError (''Cannot read properties of undefined (reading '' @ [CHR 0x27] @ k @ [CHR 0x27] @ '')''))"
| "get_prop Null k =
     Inl (TypeError (''Cannot read properties of null (reading '' @ [CHR 0x27] @ k @ [CHR 0x27] @ '')''))"
| "get_prop (Obj kvs) k = Inr (case map_of kvs k of None \<Rightarrow> Undefined | Some v \<Rightarrow> v)"
| "get_prop (Str s) k = Inr (if k = ''length'' then Num (show_nat (length s)) else Undefined)"
| "get_prop (Arr xs) k = Inr (if k = ''length'' then Num (show_nat (length xs)) else Undefined)"
| "get_prop (Bool b) k = Inr Undefined"
| "get_prop (Num t) k = Inr Undefined"

text \<open>
  The string conversion of a template literal \<^verbatim>\<open>${v}\<close> (and of a DOM attribute setter).
  An array is joined with commas, \<^verbatim>\<open>null\<close> and \<^verbatim>\<open>undefined\<close> elements giving the empty
  string. An object is \<^verbatim>\<open>[object Object]\<close>, unless it has an own property \<^verbatim>\<open>toString\<close>:
  a value parsed from JSON is never callable, so the conversion finds no method that
  returns a primitive and throws.
\<close>

fun to_string :: "jsval \<Rightarrow> error + string"
  and join :: "jsval list \<Rightarrow> error + string" where
  "to_string Undefined = Inr ''undefined''"
| "to_string Null = Inr ''null''"
| "to_string (Bool b) = Inr (if b then ''true'' else ''false'')"
| "to_string (Num t) = Inr t"
| "to_string (Str s) = Inr s"
| "to_string (Arr xs) = join xs"
| "to_string (Obj kvs) =
     (if ''toString'' \<in> fst ` set kvs
      then Inl (TypeError ''Cannot convert object to primitive value'')
      else Inr ''[object Object]'')"
| "join [] = Inr ''''"
| "join (x # xs) =
     (case (if x = Undefined \<or> x = Null then Inr '''' else to_string x) of
        Inl e \<Rightarrow> Inl e
      | Inr s \<Rightarrow>
          (if xs = [] then Inr s
           else (case join xs of Inl e \<Rightarrow> Inl e | Inr t \<Rightarrow> Inr (s @ '','' @ t))))"

text \<open>\<^verbatim>\<open>${v.k}\<close>: the property read, then the conversion.\<close>

definition field_text :: "jsval \<Rightarrow> string \<Rightarrow> error + string" where
  "field_text v k = (case get_prop v k of Inl e \<Rightarrow> Inl e | Inr x \<Rightarrow> to_string x)"

text \<open>Several \<^verbatim>\<open>${v.k}\<close> in a row, left to right; the first exception ends the evaluation.\<close>

fun fields_text :: "jsval \<Rightarrow> string list \<Rightarrow> error + string list" where
  "fields_text v [] = Inr []"
| "fields_text v (k # ks) =
     (case field_text v k of
        Inl e \<Rightarrow> Inl e
      | Inr s \<Rightarrow> (case fields_text v ks of Inl e \<Rightarrow> Inl e | Inr ss \<Rightarrow> Inr (s # ss)))"

subsection \<open>The page\<close>

text \<open>
  An element the script creates: its tag, its class list, its \<^verbatim>\<open>value\<close> attribute and
  what the script wrote into it, through \<^verbatim>\<open>innerHTML\<close> or through \<^verbatim>\<open>textContent\<close>. Markup
  is kept as the string the script assigns; it is not parsed.
\<close>

datatype content = Blank | InnerHTML string | TextContent string

record element =
  tagName :: string
  classList :: "string list"
  valueAttr :: "string option"
  inner :: content

definition createElement :: "string \<Rightarrow> element" where
  \<open>createElement t = \<lparr>tagName = t, classList = [], valueAttr = None, inner = Blank\<rparr>\<close>

text \<open>
  A child of a container is either markup assigned to the container's \<^verbatim>\<open>innerHTML\<close> or
  an element appended with \<^verbatim>\<open>appendChild\<close>.
\<close>

datatype node = Markup string | Element element

text \<open>
  The four containers the script looks up with \<^verbatim>\<open>getElementById\<close> (\<^verbatim>\<open>players-table-body\<close>,
  \<^verbatim>\<open>matches-container\<close>, \<^verbatim>\<open>match-select\<close>, \<^verbatim>\<open>stats-display\<close>) and the five inputs of the
  player form (\<^verbatim>\<open>player-name\<close>, \<^verbatim>\<open>player-age\<close>, \<^verbatim>\<open>player-dob\<close>, \<^verbatim>\<open>player-position\<close>,
  \<^verbatim>\<open>player-number\<close>). The page's markup is not part of the script: the model assumes
  that these elements exist, and takes what they hold at the start as given.
\<close>

datatype container = PlayersTableBody | MatchesContainer | MatchSelect | StatsDisplay

datatype field = PlayerName | PlayerAge | PlayerDob | PlayerPosition | PlayerNumber

datatype http_method = GET | POST

record request =
  http_method :: http_method
  url :: string
  headers :: "(string \<times> string) list"
  body :: "jsval option"

text \<open>
  A response, as far as the script looks at it: \<^verbatim>\<open>res.ok\<close> and the outcome of
  \<^verbatim>\<open>res.json()\<close>, which is the parsed body or a rejection.
\<close>

record response =
  ok :: bool
  json :: "error + jsval"

text \<open>
  The network answers a request with a rejection of \<^verbatim>\<open>fetch\<close> or with a response. The
  answer may depend on the requests sent before.
\<close>

type_synonym network = "request list \<Rightarrow> request \<Rightarrow> error + response"

record world =
  dom :: "container \<Rightarrow> node list"
  inputs :: "field \<Rightarrow> string"
  defaults :: "field \<Rightarrow> string"
  requests :: "request list"
  console :: "error list"
  alerts :: "string list"

type_synonym outcome = "error option \<times> world"

definition API_BASE_URL :: string where
  \<open>API_BASE_URL = ''http://127.0.0.1:8000''\<close>

definition fetch :: "network \<Rightarrow> request \<Rightarrow> world \<Rightarrow> (error + response) \<times> world" where
  \<open>fetch net rq w = (net (requests w) rq, w\<lparr>requests := requests w @ [rq]\<rparr>)\<close>

definition get_request :: "string \<Rightarrow> request" where
  \<open>get_request u = \<lparr>http_method = GET, url = u, headers = [], body = None\<rparr>\<close>

text \<open>\<^verbatim>\<open>c.innerHTML = s\<close>: the children of \<open>c\<close> are replaced by what \<open>s\<close> holds.\<close>

definition set_innerHTML :: "container \<Rightarrow> string \<Rightarrow> world \<Rightarrow> world" where
  \<open>set_innerHTML c s w = w\<lparr>dom := (dom w)(c := (if s = [] then [] else [Markup s]))\<rparr>\<close>

definition appendChild :: "container \<Rightarrow> element \<Rightarrow> world \<Rightarrow> world" where
  \<open>appendChild c el w = w\<lparr>dom := (dom w)(c := dom w c @ [Element el])\<rparr>\<close>

definition console_error :: "error \<Rightarrow> world \<Rightarrow> world" where
  \<open>console_error err w = w\<lparr>console := console w @ [err]\<rparr>\<close>

definition alert :: "string \<Rightarrow> world \<Rightarrow> world" where
  \<open>alert msg w = w\<lparr>alerts := alerts w @ [msg]\<rparr>\<close>

text \<open>\<^verbatim>\<open>playerForm.reset()\<close>: every input goes back to the value the markup gives it.\<close>

definition reset :: "world \<Rightarrow> world" where
  \<open>reset w = w\<lparr>inputs := defaults w\<rparr>\<close>

subsection \<open>Helper functions\<close>

text \<open>The markup \<^verbatim>\<open>showMessage\<close> writes around a message.\<close>

definition message_html :: "string \<Rightarrow> string" where
  \<open>message_html msg = ''<p class="no-data-msg">'' @ msg @ ''</p>''\<close>

definition showMessage :: "container \<Rightarrow> string \<Rightarrow> world \<Rightarrow> world" where
  \<open>showMessage c msg w = set_innerHTML c (message_html msg) w\<close>

definition createStatCard :: "string \<Rightarrow> jsval \<Rightarrow> error + element" where
  \<open>createStatCard label v =
     (case to_string v of
        Inl e \<Rightarrow> Inl e
      | Inr s \<Rightarrow>
          Inr ((createElement ''div'')
                 \<lparr>classList := [''stat-card''],
                  inner := InnerHTML (''<h4>'' @ label @ ''</h4><p>'' @ s @ ''</p>'')\<rparr>))\<close>

text \<open>
  \<^verbatim>\<open>xs.forEach(f)\<close> on an array: \<open>f\<close> runs on the elements in order, and an exception from
  \<open>f\<close> ends the loop. \<^verbatim>\<open>v.forEach(f)\<close> on a parsed JSON value \<open>v\<close> (\<open>name\<close> is the
  expression that names \<open>v\<close> in the script): only an array has the method.
\<close>

fun each :: "'a list \<Rightarrow> ('a \<Rightarrow> world \<Rightarrow> outcome) \<Rightarrow> world \<Rightarrow> outcome" where
  \<open>each [] f w = (None, w)\<close>
| \<open>each (x # xs) f w = (case f x w of (Some e, w') \<Rightarrow> (Some e, w') | (None, w') \<Rightarrow> each xs f w')\<close>

fun forEach :: "string \<Rightarrow> jsval \<Rightarrow> (jsval \<Rightarrow> world \<Rightarrow> outcome) \<Rightarrow> world \<Rightarrow> outcome" where
  \<open>forEach name (Arr xs) f w = each xs f w\<close>
| \<open>forEach name v f w = (Some (TypeError (name @ ''.forEach is not a function'')), w)\<close>

subsection \<open>Player management\<close>

text \<open>
  The template literals of the script span several lines: each starts with a line
  break, puts every cell on a line of its own behind eight blanks, and ends with six
  blanks.
\<close>

definition nl :: string where
  \<open>nl = [CHR 0x0A]\<close>

definition row_html :: "string list \<Rightarrow> string" where
  \<open>row_html cells = nl @ concat (map (\<lambda>c. ''        <td>'' @ c @ ''</td>'' @ nl) cells) @ ''      ''\<close>

definition player_keys :: "string list" where
  \<open>player_keys = [''id'', ''name'', ''age'', ''position'', ''jersey_number'', ''injury_status'']\<close>

text \<open>The callback of \<^verbatim>\<open>data.forEach\<close> in \<^verbatim>\<open>loadPlayers\<close>.\<close>

definition player_row :: "jsval \<Rightarrow> world \<Rightarrow> outcome" where
  \<open>player_row p w =
     (case fields_text p player_keys of
        Inl e \<Rightarrow> (Some e, w)
      | Inr cells \<Rightarrow>
          (None, appendChild PlayersTableBody ((createElement ''tr'')\<lparr>inner := InnerHTML (row_html cells)\<rparr>) w))\<close>

text \<open>The \<^verbatim>\<open>try\<close> block of \<^verbatim>\<open>loadPlayers\<close>.\<close>

definition loadPlayers_try :: "network \<Rightarrow> world \<Rightarrow> outcome" where
  \<open>loadPlayers_try net w =
     (case fetch net (get_request (API_BASE_URL @ ''/players/'')) w of
        (Inl e, w1) \<Rightarrow> (Some e, w1)
      | (Inr res, w1) \<Rightarrow>
          (case json res of
             Inl e \<Rightarrow> (Some e, w1)
           | Inr data \<Rightarrow>
               (let w2 = set_innerHTML PlayersTableBody [] w1 in
                case get_prop data ''length'' of
                  Inl e \<Rightarrow> (Some e, w2)
                | Inr len \<Rightarrow>
                    if len = Num ''0'' then (None, showMessage PlayersTableBody ''No players found.'' w2)
                    else forEach ''data'' data player_row w2)))\<close>

definition loadPlayers :: "network \<Rightarrow> world \<Rightarrow> outcome" where
  \<open>loadPlayers net w =
     (case loadPlayers_try net w of
        (None, w') \<Rightarrow> (None, w')
      | (Some err, w') \<Rightarrow>
          (None, showMessage PlayersTableBody ''Error loading players.'' (console_error err w')))\<close>

text \<open>
  \<^verbatim>\<open>parseInt\<close> is a built-in of the engine and no code of the script: the model takes it
  as given, a function \<open>parseInt\<close> from the text of an input to a number. In the body of
  a request \<^verbatim>\<open>JSON.stringify\<close> writes a number as its text, but \<^verbatim>\<open>NaN\<close> and the two
  infinities as \<^verbatim>\<open>null\<close>.
\<close>

definition json_number :: "number \<Rightarrow> jsval" where
  \<open>json_number t = (if t = ''NaN'' \<or> t = ''Infinity'' \<or> t = ''-Infinity'' then Null else Num t)\<close>

text \<open>The object the submit handler builds from the form, as the JSON document it sends.\<close>

definition player_of_form :: "(string \<Rightarrow> number) \<Rightarrow> world \<Rightarrow> jsval" where
  \<open>player_of_form parseInt w =
     Obj [(''name'', Str (inputs w PlayerName)),
          (''age'', json_number (parseInt (inputs w PlayerAge))),
          (''date_of_birth'', Str (inputs w PlayerDob)),
          (''position'', Str (inputs w PlayerPosition)),
          (''jersey_number'', json_number (parseInt (inputs w PlayerNumber))),
          (''transfer_price_vnd'', Num ''0''),
          (''injury_status'', Str ''FIT'')]\<close>

definition create_request :: "(string \<Rightarrow> number) \<Rightarrow> world \<Rightarrow> request" where
  \<open>create_request parseInt w =
     \<lparr>http_method = POST, url = API_BASE_URL @ ''/players/'',
      headers = [(''Content-Type'', ''application/json'')],
      body = Some (player_of_form parseInt w)\<rparr>\<close>

text \<open>
  The \<^verbatim>\<open>try\<close> block of the form's submit handler. Before it, the handler cancels the
  browser's own submission of the form and reads the inputs; neither changes the page.
\<close>

definition submit_try :: "(string \<Rightarrow> number) \<Rightarrow> network \<Rightarrow> world \<Rightarrow> outcome" where
  \<open>submit_try parseInt net w =
     (case fetch net (create_request parseInt w) w of
        (Inl e, w1) \<Rightarrow> (Some e, w1)
      | (Inr res, w1) \<Rightarrow>
          if \<not> ok res then (Some (Error ''Failed to create player''), w1)
          else (case loadPlayers net w1 of
                  (Some e, w2) \<Rightarrow> (Some e, w2)
                | (None, w2) \<Rightarrow> (None, reset w2)))\<close>

definition submit :: "(string \<Rightarrow> number) \<Rightarrow> network \<Rightarrow> world \<Rightarrow> outcome" where
  \<open>submit parseInt net w =
     (case submit_try parseInt net w of
        (None, w') \<Rightarrow> (None, w')
      | (Some err, w') \<Rightarrow> (None, alert (''Error adding player: '' @ message err) w'))\<close>

subsection \<open>Match management\<close>

definition card_html :: "string \<Rightarrow> string \<Rightarrow> string \<Rightarrow> string \<Rightarrow> string \<Rightarrow> string" where
  \<open>card_html opponent date venue status score =
     nl @ ''        <h4>'' @ opponent @ ''</h4>'' @ nl
     @ ''        <p><strong>Date:</strong> '' @ date @ ''</p>'' @ nl
     @ ''        <p><strong>Venue:</strong> '' @ venue @ ''</p>'' @ nl
     @ ''        <p><strong>Status:</strong> '' @ status @ ''</p>'' @ nl
     @ ''        <p><strong>Score:</strong> '' @ score @ ''</p>'' @ nl
     @ ''      ''\<close>

text \<open>The constant \<^verbatim>\<open>score\<close> of the callback, given the value of \<^verbatim>\<open>m.is_completed\<close>.\<close>

definition score_text :: "jsval \<Rightarrow> jsval \<Rightarrow> error + string" where
  \<open>score_text m completed =
     (if truthy completed then
        (case field_text m ''our_score'' of
           Inl e \<Rightarrow> Inl e
         | Inr a \<Rightarrow>
             (case field_text m ''opponent_score'' of
                Inl e \<Rightarrow> Inl e
              | Inr b \<Rightarrow> Inr (a @ '' - '' @ b)))
      else Inr ''vs'')\<close>

text \<open>The option the callback appends to the selection control for a completed match.\<close>

definition match_option :: "jsval \<Rightarrow> world \<Rightarrow> outcome" where
  \<open>match_option m w =
     (case field_text m ''id'' of
        Inl e \<Rightarrow> (Some e, w)
      | Inr v \<Rightarrow>
          (case field_text m ''match_date'' of
             Inl e \<Rightarrow> (Some e, w)
           | Inr date \<Rightarrow>
               (case field_text m ''opponent_name'' of
                  Inl e \<Rightarrow> (Some e, w)
                | Inr opponent \<Rightarrow>
                    (None, appendChild MatchSelect
                       ((createElement ''option'')
                          \<lparr>valueAttr := Some v, inner := TextContent (date @ '' vs '' @ opponent)\<rparr>) w))))\<close>

text \<open>The callback of \<^verbatim>\<open>matches.forEach\<close> in \<^verbatim>\<open>loadMatches\<close>.\<close>

definition match_card :: "jsval \<Rightarrow> world \<Rightarrow> outcome" where
  \<open>match_card m w =
     (case get_prop m ''is_completed'' of
        Inl e \<Rightarrow> (Some e, w)
      | Inr completed \<Rightarrow>
          (let classes = [''match-card'', if truthy completed then ''past'' else ''upcoming''];
               statusText = (if truthy completed then ''Completed'' else ''Scheduled'')
           in case score_text m completed of
                Inl e \<Rightarrow> (Some e, w)
              | Inr score \<Rightarrow>
                  (case field_text m ''opponent_name'' of
                     Inl e \<Rightarrow> (Some e, w)
                   | Inr opponent \<Rightarrow>
                       (case field_text m ''match_date'' of
                          Inl e \<Rightarrow> (Some e, w)
                        | Inr date \<Rightarrow>
                            (case field_text m ''venue'' of
                               Inl e \<Rightarrow> (Some e, w)
                             | Inr venue \<Rightarrow>
                                 (let w1 = appendChild MatchesContainer
                                        ((createElement ''div'')
                                           \<lparr>classList := classes,
                                            inner := InnerHTML (card_html opponent date venue statusText score)\<rparr>) w
                                  in if truthy completed then match_option m w1 else (None, w1)))))))\<close>

definition default_option :: string where
  \<open>default_option = ''<option value="">-- Select a Completed Match --</option>''\<close>

text \<open>The \<^verbatim>\<open>try\<close> block of \<^verbatim>\<open>loadMatches\<close>.\<close>

definition loadMatches_try :: "network \<Rightarrow> world \<Rightarrow> outcome" where
  \<open>loadMatches_try net w =
     (case fetch net (get_request (API_BASE_URL @ ''/matches/upcoming'')) w of
        (Inl e, w1) \<Rightarrow> (Some e, w1)
      | (Inr res, w1) \<Rightarrow>
          (case json res of
             Inl e \<Rightarrow> (Some e, w1)
           | Inr matches \<Rightarrow>
               (let w2 = set_innerHTML MatchSelect default_option (set_innerHTML MatchesContainer [] w1) in
                case get_prop matches ''length'' of
                  Inl e \<Rightarrow> (Some e, w2)
                | Inr len \<Rightarrow>
                    if len = Num ''0'' then (None, showMessage MatchesContainer ''No matches found.'' w2)
                    else forEach ''matches'' matches match_card w2)))\<close>

definition loadMatches :: "network \<Rightarrow> world \<Rightarrow> outcome" where
  \<open>loadMatches net w =
     (case loadMatches_try net w of
        (None, w') \<Rightarrow> (None, w')
      | (Some err, w') \<Rightarrow>
          (None, showMessage MatchesContainer ''Error loading matches.'' (console_error err w')))\<close>

subsection \<open>Statistics\<close>

text \<open>The labels of the array \<^verbatim>\<open>stats\<close>, each with the property it shows.\<close>

definition stat_table :: "(string \<times> string) list" where
  \<open>stat_table =
     [(''Expected Goals (xG)'', ''expected_goals''),
      (''Shots on Target'', ''shots_on_target''),
      (''Ball Possession (%)'', ''ball_possession_percent''),
      (''Total Passes'', ''total_passes''),
      (''Successful Passes'', ''successful_passes''),
      (''Pass Success Rate (%)'', ''pass_success_rate''),
      (''Interceptions'', ''interceptions''),
      (''Successful Tackles'', ''successful_tackles''),
      (''Aerial Duels Won'', ''aerial_disputes_won''),
      (''Total Fouls'', ''total_fouls''),
      (''Yellow Cards'', ''yellow_cards''),
      (''Red Cards'', ''red_cards'')]\<close>

text \<open>Building the array \<^verbatim>\<open>stats\<close> reads the twelve properties of \<open>s\<close>, in order.\<close>

fun stats_array :: "jsval \<Rightarrow> (string \<times> string) list \<Rightarrow> error + (string \<times> jsval) list" where
  \<open>stats_array s [] = Inr []\<close>
| \<open>stats_array s ((label, k) # rest) =
     (case get_prop s k of
        Inl e \<Rightarrow> Inl e
      | Inr v \<Rightarrow> (case stats_array s rest of Inl e \<Rightarrow> Inl e | Inr vs \<Rightarrow> Inr ((label, v) # vs)))\<close>

text \<open>The callback of \<^verbatim>\<open>stats.forEach\<close>.\<close>

definition stat_card :: "string \<times> jsval \<Rightarrow> world \<Rightarrow> outcome" where
  \<open>stat_card lv w =
     (case createStatCard (fst lv) (snd lv) of
        Inl e \<Rightarrow> (Some e, w)
      | Inr el \<Rightarrow> (None, appendChild StatsDisplay el w))\<close>

text \<open>The \<^verbatim>\<open>try\<close> block of \<^verbatim>\<open>loadMatchStats\<close>; building the URL converts \<open>matchId\<close> to a string.\<close>

definition loadMatchStats_try :: "network \<Rightarrow> jsval \<Rightarrow> world \<Rightarrow> outcome" where
  \<open>loadMatchStats_try net matchId w =
     (case to_string matchId of
        Inl e \<Rightarrow> (Some e, w)
      | Inr idtext \<Rightarrow>
          (case fetch net (get_request (API_BASE_URL @ ''/matches/'' @ idtext @ ''/stats'')) w of
             (Inl e, w1) \<Rightarrow> (Some e, w1)
           | (Inr res, w1) \<Rightarrow>
               if \<not> ok res then (Some (Error ''Stats not found''), w1)
               else (case json res of
                       Inl e \<Rightarrow> (Some e, w1)
                     | Inr s \<Rightarrow>
                         (let w2 = set_innerHTML StatsDisplay [] w1 in
                          case stats_array s stat_table of
                            Inl e \<Rightarrow> (Some e, w2)
                          | Inr stats \<Rightarrow> each stats stat_card w2))))\<close>

definition loadMatchStats :: "network \<Rightarrow> jsval \<Rightarrow> world \<Rightarrow> outcome" where
  \<open>loadMatchStats net matchId w =
     (if \<not> truthy matchId then (None, showMessage StatsDisplay ''Select a match to view statistics.'' w)
      else (case loadMatchStats_try net matchId w of
              (None, w') \<Rightarrow> (None, w')
            | (Some err, w') \<Rightarrow>
                (None, showMessage StatsDisplay ''No statistics available for this match.'' w')))\<close>


subsection \<open>Notions used in the statements\<close>

text \<open>
  \<open>printable v ks\<close>: every \<^verbatim>\<open>${v.k}\<close> with \<open>k\<close> in \<open>ks\<close> evaluates without an exception.
  \<open>text_of v k\<close> is the text of \<^verbatim>\<open>${v.k}\<close> then.
\<close>

definition printable :: "jsval \<Rightarrow> string list \<Rightarrow> bool" where
  \<open>printable v ks = list_all (\<lambda>k. case field_text v k of Inl e \<Rightarrow> False | Inr s \<Rightarrow> True) ks\<close>

definition text_of :: "jsval \<Rightarrow> string \<Rightarrow> string" where
  \<open>text_of v k = (case field_text v k of Inl e \<Rightarrow> [] | Inr s \<Rightarrow> s)\<close>

text \<open>A match counts as completed when the truth test of \<^verbatim>\<open>m.is_completed\<close> succeeds.\<close>

definition completed :: "jsval \<Rightarrow> bool" where
  \<open>completed m = (case get_prop m ''is_completed'' of Inl e \<Rightarrow> False | Inr c \<Rightarrow> truthy c)\<close>

text \<open>
  A match record renders when the fields its card shows are printable, and, for a
  completed match, the two scores and the id as well.
\<close>

definition match_renders :: "jsval \<Rightarrow> bool" where
  \<open>match_renders m =
     (printable m [''opponent_name'', ''match_date'', ''venue'']
      \<and> (completed m \<longrightarrow> printable m [''our_score'', ''opponent_score'', ''id'']))\<close>

text \<open>The card and the option of a match record that renders, spelled out.\<close>

definition card_of :: "jsval \<Rightarrow> element" where
  \<open>card_of m =
     \<lparr>tagName = ''div'',
      classList = [''match-card'', if completed m then ''past'' else ''upcoming''],
      valueAttr = None,
      inner = InnerHTML
        (card_html (text_of m ''opponent_name'') (text_of m ''match_date'') (text_of m ''venue'')
           (if completed m then ''Completed'' else ''Scheduled'')
           (if completed m then text_of m ''our_score'' @ '' - '' @ text_of m ''opponent_score''
            else ''vs''))\<rparr>\<close>

definition option_of :: "jsval \<Rightarrow> element" where
  \<open>option_of m =
     \<lparr>tagName = ''option'', classList = [], valueAttr = Some (text_of m ''id''),
      inner = TextContent (text_of m ''match_date'' @ '' vs '' @ text_of m ''opponent_name'')\<rparr>\<close>

definition players_request :: request where
  \<open>players_request = get_request (API_BASE_URL @ ''/players/'')\<close>

definition matches_request :: request where
  \<open>matches_request = get_request (API_BASE_URL @ ''/matches/upcoming'')\<close>

definition stats_request :: "string \<Rightarrow> request" where
  \<open>stats_request idtext = get_request (API_BASE_URL @ ''/matches/'' @ idtext @ ''/stats'')\<close>

subsection \<open>Example inputs\<close>

text \<open>A page whose containers and inputs are empty, before any request.\<close>

definition blank_page :: world where
  \<open>blank_page =
     \<lparr>dom = (\<lambda>c. []), inputs = (\<lambda>f. []), defaults = (\<lambda>f. []), requests = [], console = [], alerts = []\<rparr>\<close>

text \<open>A page whose form has been filled in.\<close>

definition filled_page :: world where
  \<open>filled_page =
     blank_page\<lparr>inputs := (\<lambda>f. case f of PlayerName \<Rightarrow> ''An'' | PlayerAge \<Rightarrow> ''21''
                                | PlayerDob \<Rightarrow> ''2004-05-06'' | PlayerPosition \<Rightarrow> ''GK'' | PlayerNumber \<Rightarrow> ''1'')\<rparr>\<close>

text \<open>A network that is down, a server that answers every request with the same status
  and JSON body, and a server whose body is not JSON.\<close>

definition offline :: network where
  \<open>offline history rq = Inl (TypeError ''Failed to fetch'')\<close>

definition serve :: "bool \<Rightarrow> jsval \<Rightarrow> network" where
  \<open>serve status v history rq = Inr \<lparr>ok = status, json = Inr v\<rparr>\<close>


definition player_An :: jsval where
  \<open>player_An =
     Obj [(''id'', Num ''7''), (''name'', Str ''An''), (''age'', Num ''21''), (''position'', Str ''GK''),
          (''jersey_number'', Num ''1''), (''injury_status'', Str ''FIT'')]\<close>

definition match_won :: jsval where
  \<open>match_won =
     Obj [(''id'', Num ''4''), (''opponent_name'', Str ''Hanoi''), (''match_date'', Str ''2025-03-01''),
          (''venue'', Str ''Home''), (''is_completed'', Bool True),
          (''our_score'', Num ''3''), (''opponent_score'', Num ''1'')]\<close>

definition match_next :: jsval where
  \<open>match_next =
     Obj [(''id'', Num ''5''), (''opponent_name'', Str ''Hue''), (''match_date'', Str ''2025-04-01''),
          (''venue'', Str ''Away''), (''is_completed'', Bool False)]\<close>

definition stats_won :: jsval where
  \<open>stats_won =
     Obj [(''expected_goals'', Num ''1.75''), (''shots_on_target'', Num ''6''),
          (''ball_possession_percent'', Num ''55''), (''total_passes'', Num ''480''),
          (''successful_passes'', Num ''410''), (''pass_success_rate'', Num ''85.4''),
          (''interceptions'', Num ''12''), (''successful_tackles'', Num ''17''),
          (''aerial_disputes_won'', Num ''9''), (''total_fouls'', Num ''11''),
          (''yellow_cards'', Num ''2''), (''red_cards'', Num ''0'')]\<close>

text \<open>
  What \<^verbatim>\<open>parseInt\<close> answers on the inputs of the page above; on every other string this
  example answers \<^verbatim>\<open>NaN\<close>.
\<close>

definition parseInt_example :: "string \<Rightarrow> number" where
  \<open>parseInt_example s = (if s = ''21'' then ''21'' else if s = ''1'' then ''1'' else ''NaN'')\<close>

section \<open>Properties\<close>

subsection \<open>Numbers\<close>

lemma show_nat_not_empty: "show_nat n \<noteq> []"
  by (subst show_nat.simps) simp

lemma digit_zero: "n < 10 \<Longrightarrow> (''0123456789'' ! n = CHR ''0'') = (n = 0)"
proof -
  assume "n < 10"
  then have "n < length ''0123456789''" by simp
  moreover have "distinct ''0123456789''" by simp
  moreover have "''0123456789'' ! 0 = CHR ''0''" by simp
  ultimately show ?thesis
    by (metis length_pos_if_in_set nth_eq_iff_index_eq nth_mem)
qed

text \<open>Only the length 0 has the text \<^verbatim>\<open>0\<close>.\<close>

lemma show_nat_zero [simp]: "(show_nat n = ''0'') = (n = 0)"
proof (cases "n < 10")
  case True
  then show ?thesis by (subst show_nat.simps) (simp add: digit_zero)
next
  case False
  then show ?thesis
    by (subst show_nat.simps) (simp add: show_nat_not_empty)
qed

subsection \<open>What the page operations change\<close>

lemma appendChild_sel [simp]:
  "dom (appendChild c el w) = (dom w)(c := dom w c @ [Element el])"
  "requests (appendChild c el w) = requests w"
  "inputs (appendChild c el w) = inputs w"
  "defaults (appendChild c el w) = defaults w"
  "console (appendChild c el w) = console w"
  "alerts (appendChild c el w) = alerts w"
  by (simp_all add: appendChild_def)

lemma set_innerHTML_sel [simp]:
  "dom (set_innerHTML c s w) = (dom w)(c := (if s = [] then [] else [Markup s]))"
  "requests (set_innerHTML c s w) = requests w"
  "inputs (set_innerHTML c s w) = inputs w"
  "defaults (set_innerHTML c s w) = defaults w"
  "console (set_innerHTML c s w) = console w"
  "alerts (set_innerHTML c s w) = alerts w"
  by (simp_all add: set_innerHTML_def)

lemma showMessage_sel [simp]:
  "dom (showMessage c msg w) = (dom w)(c := [Markup (message_html msg)])"
  "requests (showMessage c msg w) = requests w"
  "inputs (showMessage c msg w) = inputs w"
  "defaults (showMessage c msg w) = defaults w"
  "console (showMessage c msg w) = console w"
  "alerts (showMessage c msg w) = alerts w"
  by (simp_all add: showMessage_def message_html_def)

lemma console_error_sel [simp]:
  "dom (console_error e w) = dom w"
  "requests (console_error e w) = requests w"
  "inputs (console_error e w) = inputs w"
  "defaults (console_error e w) = defaults w"
  "console (console_error e w) = console w @ [e]"
  "alerts (console_error e w) = alerts w"
  by (simp_all add: console_error_def)

lemma alert_sel [simp]:
  "dom (alert m w) = dom w"
  "requests (alert m w) = requests w"
  "inputs (alert m w) = inputs w"
  "defaults (alert m w) = defaults w"
  "console (alert m w) = console w"
  "alerts (alert m w) = alerts w @ [m]"
  by (simp_all add: alert_def)

lemma reset_sel [simp]:
  "dom (reset w) = dom w"
  "requests (reset w) = requests w"
  "inputs (reset w) = defaults w"
  "defaults (reset w) = defaults w"
  "console (reset w) = console w"
  "alerts (reset w) = alerts w"
  by (simp_all add: reset_def)

lemma fetch_sel [simp]:
  "fst (fetch net rq w) = net (requests w) rq"
  "dom (snd (fetch net rq w)) = dom w"
  "requests (snd (fetch net rq w)) = requests w @ [rq]"
  "inputs (snd (fetch net rq w)) = inputs w"
  "defaults (snd (fetch net rq w)) = defaults w"
  "console (snd (fetch net rq w)) = console w"
  "alerts (snd (fetch net rq w)) = alerts w"
  by (simp_all add: fetch_def)

subsection \<open>Printable fields\<close>

lemma fields_text_printable:
  "printable v ks \<Longrightarrow> fields_text v ks = Inr (map (text_of v) ks)"
  by (induction ks) (auto simp: printable_def text_of_def split: sum.splits)

text \<open>Conversely, a field that is not printable makes the evaluation throw.\<close>

lemma fields_text_not_printable:
  "\<not> printable v ks \<Longrightarrow> \<exists>e. fields_text v ks = Inl e"
  by (induction ks) (auto simp: printable_def split: sum.splits)

lemma printable_field:
  "printable v ks \<Longrightarrow> k \<in> set ks \<Longrightarrow> field_text v k = Inr (text_of v k)"
  by (auto simp: printable_def text_of_def list_all_iff split: sum.splits)

text \<open>The text of a field that holds a string or a number is that string or number.\<close>

lemma text_of_Str: "get_prop v k = Inr (Str t) \<Longrightarrow> text_of v k = t"
  by (simp add: text_of_def field_text_def)

lemma text_of_Num: "get_prop v k = Inr (Num t) \<Longrightarrow> text_of v k = t"
  by (simp add: text_of_def field_text_def)

subsection \<open>The player list\<close>

lemma player_row_printable:
  "printable p player_keys \<Longrightarrow>
   player_row p w =
     (None, appendChild PlayersTableBody
        \<lparr>tagName = ''tr'', classList = [], valueAttr = None,
         inner = InnerHTML (row_html (map (text_of p) player_keys))\<rparr> w)"
  by (simp add: player_row_def fields_text_printable createElement_def)

lemma each_player_row:
  "\<forall>p\<in>set ps. printable p player_keys \<Longrightarrow>
   fst (each ps player_row w) = None \<and>
   dom (snd (each ps player_row w)) PlayersTableBody =
     dom w PlayersTableBody @
        map (\<lambda>p. Element \<lparr>tagName = ''tr'', classList = [], valueAttr = None,
                            inner = InnerHTML (row_html (map (text_of p) player_keys))\<rparr>) ps"
proof (induction ps arbitrary: w)
  case Nil
  then show ?case by simp
next
  case (Cons p ps)
  then show ?case
    by (simp add: player_row_printable)
qed

lemma each_player_row_frame:
  "each ps player_row w = (r, w') \<Longrightarrow>
   requests w' = requests w \<and> inputs w' = inputs w \<and> defaults w' = defaults w
   \<and> alerts w' = alerts w \<and> console w' = console w
   \<and> (\<forall>c. c \<noteq> PlayersTableBody \<longrightarrow> dom w' c = dom w c)"
proof (induction ps arbitrary: w)
  case Nil
  then show ?case by simp
next
  case (Cons p ps)
  show ?case
  proof (cases "fields_text p player_keys")
    case (Inl e)
    with Cons.prems show ?thesis by (simp add: player_row_def)
  next
    case (Inr cells)
    with Cons.prems Cons.IH [of "appendChild PlayersTableBody ((createElement ''tr'')\<lparr>inner := InnerHTML (row_html cells)\<rparr>) w"]
    show ?thesis by (simp add: player_row_def)
  qed
qed

lemma forEach_player_row_frame:
  "forEach name data player_row w = (r, w') \<Longrightarrow>
   requests w' = requests w \<and> inputs w' = inputs w \<and> defaults w' = defaults w
   \<and> alerts w' = alerts w \<and> console w' = console w
   \<and> (\<forall>c. c \<noteq> PlayersTableBody \<longrightarrow> dom w' c = dom w c)"
  by (cases data) (auto dest!: each_player_row_frame)

lemma loadPlayers_try_frame:
  assumes "loadPlayers_try net w = (r, w')"
  shows "requests w' = requests w @ [players_request] \<and> inputs w' = inputs w \<and> defaults w' = defaults w
   \<and> alerts w' = alerts w \<and> console w' = console w
   \<and> (\<forall>c. c \<noteq> PlayersTableBody \<longrightarrow> dom w' c = dom w c)"
  using assms
  by (auto simp: loadPlayers_try_def fetch_def Let_def players_request_def
      split: sum.splits if_splits dest!: forEach_player_row_frame)

lemma loadPlayers_frame:
  assumes "loadPlayers net w = (r, w')"
  shows "r = None \<and> requests w' = requests w @ [players_request] \<and> inputs w' = inputs w \<and> defaults w' = defaults w
   \<and> alerts w' = alerts w
   \<and> (\<forall>c. c \<noteq> PlayersTableBody \<longrightarrow> dom w' c = dom w c)"
proof (cases "loadPlayers_try net w")
  case (Pair r1 w1)
  from loadPlayers_try_frame [OF Pair] Pair assms show ?thesis
    by (cases r1) (auto simp: loadPlayers_def)
qed




lemma loadPlayers_empty:
  assumes "net (requests w) players_request = Inr res" and "json res = Inr (Arr [])"
  shows "dom (snd (loadPlayers net w)) PlayersTableBody = [Markup (message_html ''No players found.'')]"
    and "console (snd (loadPlayers net w)) = console w"
  using assms
  by (simp_all add: loadPlayers_def loadPlayers_try_def fetch_def players_request_def)

lemma loadPlayers_rows:
  assumes "net (requests w) players_request = Inr res" and "json res = Inr (Arr ps)"
    and "ps \<noteq> []" and "\<forall>p\<in>set ps. printable p player_keys"
  shows "dom (snd (loadPlayers net w)) PlayersTableBody =
           map (\<lambda>p. Element \<lparr>tagName = ''tr'', classList = [], valueAttr = None,
                               inner = InnerHTML (row_html (map (text_of p) player_keys))\<rparr>) ps"
proof -
  let ?w2 = "set_innerHTML PlayersTableBody [] (w\<lparr>requests := requests w @ [players_request]\<rparr>)"
  have body: "loadPlayers_try net w = each ps player_row ?w2"
    using assms(1-3) by (simp add: loadPlayers_try_def fetch_def players_request_def)
  from each_player_row [OF assms(4), of ?w2]
  have "fst (each ps player_row ?w2) = None"
    and "dom (snd (each ps player_row ?w2)) PlayersTableBody =
           map (\<lambda>p. Element \<lparr>tagName = ''tr'', classList = [], valueAttr = None,
                               inner = InnerHTML (row_html (map (text_of p) player_keys))\<rparr>) ps"
    by simp_all
  then show ?thesis
    by (cases "each ps player_row ?w2") (simp add: loadPlayers_def body)
qed



text \<open>The markup of a row with six cells, written out as the template literal has it.\<close>

lemma row_html_six:
  "row_html [a, b, c, d, e, f] =
     nl @ ''        <td>'' @ a @ ''</td>'' @ nl @ ''        <td>'' @ b @ ''</td>'' @ nl
        @ ''        <td>'' @ c @ ''</td>'' @ nl @ ''        <td>'' @ d @ ''</td>'' @ nl
        @ ''        <td>'' @ e @ ''</td>'' @ nl @ ''        <td>'' @ f @ ''</td>'' @ nl @ ''      ''"
  by (simp add: row_html_def)

text \<open>
  Claim C5, as stated, fails: the array \<^verbatim>\<open>[player, null]\<close> has length 2, but reading
  \<^verbatim>\<open>p.id\<close> of its second element throws; the \<^verbatim>\<open>catch\<close> block replaces the row already
  appended by the error message, so the container shows no row at all.
\<close>

theorem loadPlayers_null_element:
  \<open>dom (snd (loadPlayers (serve True (Arr [player_An, Null])) blank_page)) PlayersTableBody =
     [Markup ''<p class="no-data-msg">Error loading players.</p>'']\<close>
  by code_simp

text \<open>
  Claim C5, amended. When the players request is answered with an array \<open>ps\<close> of length N
  in which the six displayed fields of every element are printable, \<^verbatim>\<open>loadPlayers\<close> ends
  without an exception and leaves in the player container exactly N rows, one per
  element and in the order of the array, each holding the cells id, name, age, position,
  jersey number and injury status in this order. When N = 0 the container holds the
  message \<^verbatim>\<open>No players found.\<close> and no row.
\<close>

theorem loadPlayers_renders_rows:
  assumes \<open>net (requests w) \<lparr>http_method = GET, url = ''http://127.0.0.1:8000/players/'', headers = [], body = None\<rparr>
             = Inr res\<close>
    and \<open>json res = Inr (Arr ps)\<close>
    and \<open>\<forall>p\<in>set ps. printable p [''id'', ''name'', ''age'', ''position'', ''jersey_number'', ''injury_status'']\<close>
  shows \<open>fst (loadPlayers net w) = None
    \<and> (ps = [] \<longrightarrow> dom (snd (loadPlayers net w)) PlayersTableBody =
          [Markup ''<p class="no-data-msg">No players found.</p>''])
    \<and> (ps \<noteq> [] \<longrightarrow>
          dom (snd (loadPlayers net w)) PlayersTableBody =
            map (\<lambda>p. Element \<lparr>tagName = ''tr'', classList = [], valueAttr = None,
                   inner = InnerHTML
                     (''\<newline>        <td>'' @ text_of p ''id'' @ ''</td>\<newline>        <td>'' @ text_of p ''name''
                      @ ''</td>\<newline>        <td>'' @ text_of p ''age'' @ ''</td>\<newline>        <td>'' @ text_of p ''position''
                      @ ''</td>\<newline>        <td>'' @ text_of p ''jersey_number''
                      @ ''</td>\<newline>        <td>'' @ text_of p ''injury_status'' @ ''</td>\<newline>      '')\<rparr>) ps
          \<and> length (dom (snd (loadPlayers net w)) PlayersTableBody) = length ps)
    \<and> (\<forall>p\<in>set ps. \<forall>k\<in>set [''id'', ''name'', ''age'', ''position'', ''jersey_number'', ''injury_status''].
          field_text p k = Inr (text_of p k))
    \<and> (\<forall>p\<in>set ps. \<forall>k t. get_prop p k = Inr (Str t) \<or> get_prop p k = Inr (Num t) \<longrightarrow> text_of p k = t)\<close>
proof -
  have rq: "net (requests w) players_request = Inr res"
    using assms(1) by (simp add: players_request_def get_request_def API_BASE_URL_def)
  have pr: "\<forall>p\<in>set ps. printable p player_keys"
    using assms(3) by (simp only: player_keys_def)
  have "fst (loadPlayers net w) = None"
    using loadPlayers_frame [of net w] by (cases "loadPlayers net w") simp
  moreover have "ps = [] \<longrightarrow> dom (snd (loadPlayers net w)) PlayersTableBody =
          [Markup (message_html ''No players found.'')]"
    using loadPlayers_empty(1) [of net w res] rq assms(2) by simp
  moreover have "ps \<noteq> [] \<longrightarrow>
          dom (snd (loadPlayers net w)) PlayersTableBody =
            map (\<lambda>p. Element \<lparr>tagName = ''tr'', classList = [], valueAttr = None,
                               inner = InnerHTML (row_html (map (text_of p) player_keys))\<rparr>) ps"
    using loadPlayers_rows [of net w res ps] rq assms(2) pr by simp
  moreover have "\<forall>p\<in>set ps. \<forall>k\<in>set player_keys. field_text p k = Inr (text_of p k)"
    using pr printable_field by blast
  moreover have "\<forall>p\<in>set ps. \<forall>k t. get_prop p k = Inr (Str t) \<or> get_prop p k = Inr (Num t) \<longrightarrow> text_of p k = t"
    using text_of_Str text_of_Num by blast
  ultimately show ?thesis
    by (simp add: player_keys_def row_html_def nl_def message_html_def)
qed

lemma printable_player_An: "printable player_An player_keys"
  by code_simp

lemma serve_answer: "serve status v h rq = Inr \<lparr>ok = status, json = Inr v\<rparr>"
  by (simp add: serve_def)

lemma player_An_text:
  "text_of player_An ''id'' = ''7''" "text_of player_An ''name'' = ''An''"
  "text_of player_An ''age'' = ''21''" "text_of player_An ''position'' = ''GK''"
  "text_of player_An ''jersey_number'' = ''1''" "text_of player_An ''injury_status'' = ''FIT''"
  by code_simp+

theorem loadPlayers_renders_rows_witness:
  \<open>dom (snd (loadPlayers (serve True (Arr [player_An, player_An])) blank_page)) PlayersTableBody =
     [Element \<lparr>tagName = ''tr'', classList = [], valueAttr = None,
        inner = InnerHTML ''\<newline>        <td>7</td>\<newline>        <td>An</td>\<newline>        <td>21</td>\<newline>        <td>GK</td>\<newline>        <td>1</td>\<newline>        <td>FIT</td>\<newline>      ''\<rparr>,
      Element \<lparr>tagName = ''tr'', classList = [], valueAttr = None,
        inner = InnerHTML ''\<newline>        <td>7</td>\<newline>        <td>An</td>\<newline>        <td>21</td>\<newline>        <td>GK</td>\<newline>        <td>1</td>\<newline>        <td>FIT</td>\<newline>      ''\<rparr>]
   \<and> dom (snd (loadPlayers (serve True (Arr [])) blank_page)) PlayersTableBody =
       [Markup ''<p class="no-data-msg">No players found.</p>'']\<close>
  using loadPlayers_renders_rows [of "serve True (Arr [player_An, player_An])" blank_page
      "\<lparr>ok = True, json = Inr (Arr [player_An, player_An])\<rparr>" "[player_An, player_An]"]
    loadPlayers_renders_rows [of "serve True (Arr [])" blank_page
      "\<lparr>ok = True, json = Inr (Arr [])\<rparr>" "[]"]
    printable_player_An
  by (simp add: serve_answer player_An_text player_keys_def)

subsection \<open>The match list\<close>

lemma message_html_not_empty [simp]: "message_html msg \<noteq> []"
  by (simp add: message_html_def)

lemma default_option_not_empty [simp]: "default_option \<noteq> []"
  by (simp add: default_option_def)

lemma printable_Cons [simp]:
  "printable v (k # ks) \<longleftrightarrow> field_text v k = Inr (text_of v k) \<and> printable v ks"
  by (auto simp: printable_def text_of_def split: sum.splits)

lemma printable_Nil [simp]: "printable v []"
  by (simp add: printable_def)

lemma field_text_get_prop:
  "field_text m k = Inr s \<Longrightarrow> \<exists>v. get_prop m k' = Inr v"
  by (cases m) (auto simp: field_text_def)

lemma completed_get_prop:
  "get_prop m ''is_completed'' = Inr c \<Longrightarrow> completed m = truthy c"
  by (simp add: completed_def)

lemma match_card_renders:
  assumes "match_renders m"
  shows "match_card m w =
     (None, if completed m
            then appendChild MatchSelect (option_of m) (appendChild MatchesContainer (card_of m) w)
            else appendChild MatchesContainer (card_of m) w)"
proof -
  from assms have "field_text m ''venue'' = Inr (text_of m ''venue'')"
    by (simp add: match_renders_def)
  then obtain c where c: "get_prop m ''is_completed'' = Inr c"
    using field_text_get_prop by blast
  then have "completed m = truthy c" by (rule completed_get_prop)
  with assms c show ?thesis
    by (simp add: match_renders_def match_card_def match_option_def score_text_def
        card_of_def option_of_def createElement_def)
qed

lemma each_match_card:
  "\<forall>m\<in>set ms. match_renders m \<Longrightarrow>
   fst (each ms match_card w) = None
   \<and> dom (snd (each ms match_card w)) MatchesContainer =
       dom w MatchesContainer @ map (\<lambda>m. Element (card_of m)) ms
   \<and> dom (snd (each ms match_card w)) MatchSelect =
       dom w MatchSelect @ map (\<lambda>m. Element (option_of m)) (filter completed ms)"
proof (induction ms arbitrary: w)
  case Nil
  then show ?case by simp
next
  case (Cons m ms)
  then show ?case
    by (simp add: match_card_renders)
qed









lemma loadMatches_renders:
  assumes "net (requests w) matches_request = Inr res" and "json res = Inr (Arr ms)"
    and "\<forall>m\<in>set ms. match_renders m"
  shows "fst (loadMatches_try net w) = None"
    and "ms \<noteq> [] \<Longrightarrow> dom (snd (loadMatches net w)) MatchesContainer = map (\<lambda>m. Element (card_of m)) ms"
    and "dom (snd (loadMatches net w)) MatchSelect =
           Markup default_option # map (\<lambda>m. Element (option_of m)) (filter completed ms)"
proof -
  let ?w2 = "set_innerHTML MatchSelect default_option
               (set_innerHTML MatchesContainer [] (w\<lparr>requests := requests w @ [matches_request]\<rparr>))"
  have body: "loadMatches_try net w =
      (if ms = [] then (None, showMessage MatchesContainer ''No matches found.'' ?w2)
       else each ms match_card ?w2)"
    using assms(1,2) by (simp add: loadMatches_try_def fetch_def matches_request_def)
  note run = each_match_card [OF assms(3), of ?w2]
  show "fst (loadMatches_try net w) = None"
    using run by (simp add: body)
  show "dom (snd (loadMatches net w)) MatchesContainer = map (\<lambda>m. Element (card_of m)) ms" if "ms \<noteq> []"
    using run that by (cases "each ms match_card ?w2") (simp add: loadMatches_def body)
  show "dom (snd (loadMatches net w)) MatchSelect =
           Markup default_option # map (\<lambda>m. Element (option_of m)) (filter completed ms)"
    using run by (cases "each ms match_card ?w2") (simp add: loadMatches_def body)
qed

subsection \<open>Statistics\<close>

lemma stat_cards:
  "printable s (map snd tbl) \<Longrightarrow>
   \<exists>stats. stats_array s tbl = Inr stats
     \<and> (\<forall>w. fst (each stats stat_card w) = None
            \<and> dom (snd (each stats stat_card w)) StatsDisplay =
                dom w StatsDisplay @
                map (\<lambda>(label, k). Element \<lparr>tagName = ''div'', classList = [''stat-card''], valueAttr = None,
                       inner = InnerHTML (''<h4>'' @ label @ ''</h4><p>'' @ text_of s k @ ''</p>'')\<rparr>) tbl)"
proof (induction tbl)
  case Nil
  then show ?case by simp
next
  case (Cons lk tbl)
  obtain label k where lk: "lk = (label, k)" by (cases lk)
  from Cons.prems lk have f: "field_text s k = Inr (text_of s k)" and rest: "printable s (map snd tbl)"
    by simp_all
  from f obtain v where v: "get_prop s k = Inr v" and tv: "to_string v = Inr (text_of s k)"
    by (auto simp: field_text_def split: sum.splits)
  from Cons.IH [OF rest] obtain stats where st: "stats_array s tbl = Inr stats"
    and run: "\<And>w. fst (each stats stat_card w) = None
            \<and> dom (snd (each stats stat_card w)) StatsDisplay =
                dom w StatsDisplay @
                map (\<lambda>(label, k). Element \<lparr>tagName = ''div'', classList = [''stat-card''], valueAttr = None,
                       inner = InnerHTML (''<h4>'' @ label @ ''</h4><p>'' @ text_of s k @ ''</p>'')\<rparr>) tbl"
    by blast
  have "stats_array s (lk # tbl) = Inr ((label, v) # stats)"
    by (simp add: lk v st)
  moreover have "fst (each ((label, v) # stats) stat_card w) = None
            \<and> dom (snd (each ((label, v) # stats) stat_card w)) StatsDisplay =
                dom w StatsDisplay @
                map (\<lambda>(label, k). Element \<lparr>tagName = ''div'', classList = [''stat-card''], valueAttr = None,
                       inner = InnerHTML (''<h4>'' @ label @ ''</h4><p>'' @ text_of s k @ ''</p>'')\<rparr>) (lk # tbl)" for w
    by (simp add: stat_card_def createStatCard_def tv createElement_def run lk)
  ultimately show ?case by blast
qed

lemma loadMatchStats_never_throws: "fst (loadMatchStats net matchId w) = None"
  by (cases "loadMatchStats_try net matchId w") (auto simp: loadMatchStats_def split: option.splits)





lemma loadMatchStats_cards:
  assumes "truthy matchId" and "to_string matchId = Inr t"
    and "net (requests w) (stats_request t) = Inr res" and "ok res" and "json res = Inr s"
    and "printable s (map snd stat_table)"
  shows "dom (snd (loadMatchStats net matchId w)) StatsDisplay =
           map (\<lambda>(label, k). Element \<lparr>tagName = ''div'', classList = [''stat-card''], valueAttr = None,
                  inner = InnerHTML (''<h4>'' @ label @ ''</h4><p>'' @ text_of s k @ ''</p>'')\<rparr>) stat_table"
proof -
  let ?w2 = "set_innerHTML StatsDisplay [] (w\<lparr>requests := requests w @ [stats_request t]\<rparr>)"
  from stat_cards [OF assms(6)] obtain stats where st: "stats_array s stat_table = Inr stats"
    and run: "fst (each stats stat_card ?w2) = None"
      "dom (snd (each stats stat_card ?w2)) StatsDisplay =
         dom ?w2 StatsDisplay @
         map (\<lambda>(label, k). Element \<lparr>tagName = ''div'', classList = [''stat-card''], valueAttr = None,
                inner = InnerHTML (''<h4>'' @ label @ ''</h4><p>'' @ text_of s k @ ''</p>'')\<rparr>) stat_table"
    by blast
  have body: "loadMatchStats_try net matchId w = each stats stat_card ?w2"
    using assms(2-5) st by (simp add: loadMatchStats_try_def fetch_def stats_request_def)
  show ?thesis
    using run assms(1) by (cases "each stats stat_card ?w2") (simp add: loadMatchStats_def body)
qed

subsection \<open>The player form\<close>

lemma submit_never_throws: "fst (submit parseInt net w) = None"
  by (cases "submit_try parseInt net w") (auto simp: submit_def split: option.splits)

lemma submit_created:
  assumes "net (requests w) (create_request parseInt w) = Inr res" and "ok res"
  shows "requests (snd (submit parseInt net w)) = requests w @ [create_request parseInt w, players_request]"
    and "inputs (snd (submit parseInt net w)) = defaults w"
    and "alerts (snd (submit parseInt net w)) = alerts w"
proof -
  let ?w1 = "w\<lparr>requests := requests w @ [create_request parseInt w]\<rparr>"
  obtain r w2 where lp: "loadPlayers net ?w1 = (r, w2)"
    by (cases "loadPlayers net ?w1")
  from loadPlayers_frame [OF lp]
  have r: "r = None" and f: "requests w2 = requests w @ [create_request parseInt w, players_request]"
    "inputs w2 = inputs w" "defaults w2 = defaults w" "alerts w2 = alerts w"
    by simp_all
  have "submit parseInt net w = (None, reset w2)"
    using assms lp r by (simp add: submit_def submit_try_def fetch_def)
  with f show "requests (snd (submit parseInt net w)) = requests w @ [create_request parseInt w, players_request]"
    and "inputs (snd (submit parseInt net w)) = defaults w"
    and "alerts (snd (submit parseInt net w)) = alerts w"
    by simp_all
qed

lemma submit_refused:
  assumes "net (requests w) (create_request parseInt w) = Inr res" and "\<not> ok res"
  shows "requests (snd (submit parseInt net w)) = requests w @ [create_request parseInt w]"
    and "inputs (snd (submit parseInt net w)) = inputs w"
    and "alerts (snd (submit parseInt net w)) = alerts w @ [''Error adding player: Failed to create player'']"
  using assms by (simp_all add: submit_def submit_try_def fetch_def)

lemma submit_rejected:
  assumes "net (requests w) (create_request parseInt w) = Inl e"
  shows "requests (snd (submit parseInt net w)) = requests w @ [create_request parseInt w]"
    and "inputs (snd (submit parseInt net w)) = inputs w"
    and "alerts (snd (submit parseInt net w)) = alerts w @ [''Error adding player: '' @ message e]"
  using assms by (simp_all add: submit_def submit_try_def fetch_def)

subsection \<open>The claims about the match list\<close>

text \<open>
  Claim C3. When the matches request is answered with a non-empty array of match
  records that render, the matches container holds one card per record, in order. The
  last line of a card is the score: \<^verbatim>\<open>vs\<close> for a match that is not completed, and the
  texts of \<^verbatim>\<open>our_score\<close> and \<^verbatim>\<open>opponent_score\<close> around \<^verbatim>\<open> - \<close> for a completed one, which
  is \<^verbatim>\<open>3 - 1\<close> for the scores 3 and 1.
\<close>

theorem loadMatches_score_text:
  assumes \<open>net (requests w) \<lparr>http_method = GET, url = ''http://127.0.0.1:8000/matches/upcoming'', headers = [], body = None\<rparr>
             = Inr res\<close>
    and \<open>json res = Inr (Arr ms)\<close>
    and \<open>ms \<noteq> []\<close> and \<open>\<forall>m\<in>set ms. match_renders m\<close>
  shows \<open>dom (snd (loadMatches net w)) MatchesContainer =
      map (\<lambda>m. Element
             \<lparr>tagName = ''div'',
              classList = [''match-card'', if completed m then ''past'' else ''upcoming''],
              valueAttr = None,
              inner = InnerHTML
                (''\<newline>        <h4>'' @ text_of m ''opponent_name''
                 @ ''</h4>\<newline>        <p><strong>Date:</strong> '' @ text_of m ''match_date''
                 @ ''</p>\<newline>        <p><strong>Venue:</strong> '' @ text_of m ''venue''
                 @ ''</p>\<newline>        <p><strong>Status:</strong> ''
                 @ (if completed m then ''Completed'' else ''Scheduled'')
                 @ ''</p>\<newline>        <p><strong>Score:</strong> ''
                 @ (if completed m then text_of m ''our_score'' @ '' - '' @ text_of m ''opponent_score''
                    else ''vs'')
                 @ ''</p>\<newline>      '')\<rparr>) ms
    \<and> (\<forall>m\<in>set ms. completed m \<longrightarrow>
          field_text m ''our_score'' = Inr (text_of m ''our_score'')
          \<and> field_text m ''opponent_score'' = Inr (text_of m ''opponent_score''))
    \<and> (\<forall>m\<in>set ms. \<forall>a b. get_prop m ''our_score'' = Inr (Num a) \<and> get_prop m ''opponent_score'' = Inr (Num b) \<longrightarrow>
          text_of m ''our_score'' @ '' - '' @ text_of m ''opponent_score'' = a @ '' - '' @ b)
    \<and> (\<forall>m\<in>set ms. get_prop m ''our_score'' = Inr (Num ''3'') \<and> get_prop m ''opponent_score'' = Inr (Num ''1'') \<longrightarrow>
          text_of m ''our_score'' @ '' - '' @ text_of m ''opponent_score'' = ''3 - 1'')
    \<and> (\<forall>m\<in>set ms. \<forall>b. get_prop m ''is_completed'' = Inr (Bool b) \<longrightarrow> completed m = b)\<close>
proof -
  have rq: "net (requests w) matches_request = Inr res"
    using assms(1) by (simp add: matches_request_def get_request_def API_BASE_URL_def)
  have "dom (snd (loadMatches net w)) MatchesContainer = map (\<lambda>m. Element (card_of m)) ms"
    using loadMatches_renders(2) [of net w res ms] rq assms(2-4) by simp
  moreover have "\<forall>m\<in>set ms. completed m \<longrightarrow>
          field_text m ''our_score'' = Inr (text_of m ''our_score'')
          \<and> field_text m ''opponent_score'' = Inr (text_of m ''opponent_score'')"
    using assms(4) by (simp add: match_renders_def)
  moreover have "\<forall>m\<in>set ms. \<forall>a b. get_prop m ''our_score'' = Inr (Num a) \<and> get_prop m ''opponent_score'' = Inr (Num b) \<longrightarrow>
          text_of m ''our_score'' @ '' - '' @ text_of m ''opponent_score'' = a @ '' - '' @ b"
    by (simp add: text_of_Num)
  moreover have "\<forall>m\<in>set ms. get_prop m ''our_score'' = Inr (Num ''3'') \<and> get_prop m ''opponent_score'' = Inr (Num ''1'') \<longrightarrow>
          text_of m ''our_score'' @ '' - '' @ text_of m ''opponent_score'' = ''3 - 1''"
    by (simp add: text_of_Num)
  moreover have "\<forall>m\<in>set ms. \<forall>b. get_prop m ''is_completed'' = Inr (Bool b) \<longrightarrow> completed m = b"
    by (simp add: completed_def)
  ultimately show ?thesis
    by (simp add: card_of_def card_html_def nl_def)
qed

lemma example_matches_render: "match_renders match_won" "match_renders match_next"
  by code_simp+

lemma example_matches_completed: "completed match_won" "\<not> completed match_next"
  by code_simp+

lemma example_matches_text:
  "text_of match_won ''opponent_name'' = ''Hanoi''" "text_of match_won ''match_date'' = ''2025-03-01''"
  "text_of match_won ''venue'' = ''Home''" "text_of match_won ''our_score'' = ''3''"
  "text_of match_won ''opponent_score'' = ''1''" "text_of match_won ''id'' = ''4''"
  "text_of match_next ''opponent_name'' = ''Hue''" "text_of match_next ''match_date'' = ''2025-04-01''"
  "text_of match_next ''venue'' = ''Away''"
  by code_simp+

theorem loadMatches_score_text_witness:
  \<open>dom (snd (loadMatches (serve True (Arr [match_won, match_next])) blank_page)) MatchesContainer =
     [Element \<lparr>tagName = ''div'', classList = [''match-card'', ''past''], valueAttr = None,
        inner = InnerHTML ''\<newline>        <h4>Hanoi</h4>\<newline>        <p><strong>Date:</strong> 2025-03-01</p>\<newline>        <p><strong>Venue:</strong> Home</p>\<newline>        <p><strong>Status:</strong> Completed</p>\<newline>        <p><strong>Score:</strong> 3 - 1</p>\<newline>      ''\<rparr>,
      Element \<lparr>tagName = ''div'', classList = [''match-card'', ''upcoming''], valueAttr = None,
        inner = InnerHTML ''\<newline>        <h4>Hue</h4>\<newline>        <p><strong>Date:</strong> 2025-04-01</p>\<newline>        <p><strong>Venue:</strong> Away</p>\<newline>        <p><strong>Status:</strong> Scheduled</p>\<newline>        <p><strong>Score:</strong> vs</p>\<newline>      ''\<rparr>]\<close>
  using loadMatches_score_text [of "serve True (Arr [match_won, match_next])" blank_page
      "\<lparr>ok = True, json = Inr (Arr [match_won, match_next])\<rparr>" "[match_won, match_next]"]
  by (simp add: serve_answer example_matches_render example_matches_completed example_matches_text)

text \<open>
  Claim C4. When the matches request is answered with an array of match records that
  render, the selection control holds, after the default option, one option for each
  completed match and none for the others, in the order of the array; the option's
  value is the text of the match id and its label is the match date, \<^verbatim>\<open> vs \<close> and the
  opponent's name.
\<close>

theorem loadMatches_options:
  assumes "net (requests w) matches_request = Inr res" and "json res = Inr (Arr ms)"
    and "\<forall>m\<in>set ms. match_renders m"
  shows "dom (snd (loadMatches net w)) MatchSelect =
      Markup default_option #
      map (\<lambda>m. Element
             \<lparr>tagName = ''option'', classList = [], valueAttr = Some (text_of m ''id''),
              inner = TextContent (text_of m ''match_date'' @ '' vs '' @ text_of m ''opponent_name'')\<rparr>)
          (filter completed ms)
    \<and> (\<forall>m\<in>set ms. completed m \<longrightarrow> field_text m ''id'' = Inr (text_of m ''id''))
    \<and> (\<forall>m\<in>set ms. field_text m ''match_date'' = Inr (text_of m ''match_date'')
          \<and> field_text m ''opponent_name'' = Inr (text_of m ''opponent_name''))
    \<and> (\<forall>m\<in>set ms. \<forall>b. get_prop m ''is_completed'' = Inr (Bool b) \<longrightarrow> completed m = b)"
proof -
  have "dom (snd (loadMatches net w)) MatchSelect =
      Markup default_option # map (\<lambda>m. Element (option_of m)) (filter completed ms)"
    using loadMatches_renders(3) [of net w res ms] assms by simp
  moreover have "\<forall>m\<in>set ms. completed m \<longrightarrow> field_text m ''id'' = Inr (text_of m ''id'')"
    using assms(3) by (simp add: match_renders_def)
  moreover have "\<forall>m\<in>set ms. field_text m ''match_date'' = Inr (text_of m ''match_date'')
          \<and> field_text m ''opponent_name'' = Inr (text_of m ''opponent_name'')"
    using assms(3) by (simp add: match_renders_def)
  moreover have "\<forall>m\<in>set ms. \<forall>b. get_prop m ''is_completed'' = Inr (Bool b) \<longrightarrow> completed m = b"
    by (simp add: completed_def)
  ultimately show ?thesis
    by (simp add: option_of_def)
qed

theorem loadMatches_options_witness:
  "dom (snd (loadMatches (serve True (Arr [match_won, match_next])) blank_page)) MatchSelect =
     [Markup default_option,
      Element \<lparr>tagName = ''option'', classList = [], valueAttr = Some ''4'',
        inner = TextContent ''2025-03-01 vs Hanoi''\<rparr>]"
  using loadMatches_options [of "serve True (Arr [match_won, match_next])" blank_page
      "\<lparr>ok = True, json = Inr (Arr [match_won, match_next])\<rparr>" "[match_won, match_next]"]
  by (simp add: serve_answer example_matches_render example_matches_completed example_matches_text)




subsection \<open>The claims about statistics\<close>





text \<open>
  Claim C8, as stated, fails: a statistics request answered with a success status and
  the body \<^verbatim>\<open>null\<close> is a successful fetch, but reading \<^verbatim>\<open>s.expected_goals\<close> throws and the
  \<^verbatim>\<open>catch\<close> block shows the message; no stat card is rendered.
\<close>

theorem loadMatchStats_null_body:
  \<open>dom (snd (loadMatchStats (serve True Null) (Str ''4'') blank_page)) StatsDisplay =
     [Markup ''<p class="no-data-msg">No statistics available for this match.</p>'']\<close>
  by code_simp

text \<open>
  Claim C8, amended. For a match identifier that passes the truth test and converts to
  the text \<open>t\<close>: when the statistics request is answered with a success status and a body
  \<open>s\<close> whose twelve statistics are printable, \<^verbatim>\<open>loadMatchStats\<close> replaces what the
  statistics container held by exactly twelve stat cards, each with its label and the
  text of its field, in the order expected goals, shots on target, ball possession,
  total passes, successful passes, pass success rate, interceptions, successful
  tackles, aerial disputes won, total fouls, yellow cards, red cards.
\<close>

theorem loadMatchStats_twelve_cards:
  assumes \<open>truthy matchId\<close> and \<open>to_string matchId = Inr t\<close>
    and \<open>net (requests w)
           \<lparr>http_method = GET, url = ''http://127.0.0.1:8000/matches/'' @ t @ ''/stats'', headers = [], body = None\<rparr>
         = Inr res\<close>
    and \<open>ok res\<close> and \<open>json res = Inr s\<close>
    and \<open>printable s
           [''expected_goals'', ''shots_on_target'', ''ball_possession_percent'', ''total_passes'',
            ''successful_passes'', ''pass_success_rate'', ''interceptions'', ''successful_tackles'',
            ''aerial_disputes_won'', ''total_fouls'', ''yellow_cards'', ''red_cards'']\<close>
  shows \<open>dom (snd (loadMatchStats net matchId w)) StatsDisplay =
      map (\<lambda>(label, k). Element
             \<lparr>tagName = ''div'', classList = [''stat-card''], valueAttr = None,
              inner = InnerHTML (''<h4>'' @ label @ ''</h4><p>'' @ text_of s k @ ''</p>'')\<rparr>)
        [(''Expected Goals (xG)'', ''expected_goals''),
         (''Shots on Target'', ''shots_on_target''),
         (''Ball Possession (%)'', ''ball_possession_percent''),
         (''Total Passes'', ''total_passes''),
         (''Successful Passes'', ''successful_passes''),
         (''Pass Success Rate (%)'', ''pass_success_rate''),
         (''Interceptions'', ''interceptions''),
         (''Successful Tackles'', ''successful_tackles''),
         (''Aerial Duels Won'', ''aerial_disputes_won''),
         (''Total Fouls'', ''total_fouls''),
         (''Yellow Cards'', ''yellow_cards''),
         (''Red Cards'', ''red_cards'')]
    \<and> length (dom (snd (loadMatchStats net matchId w)) StatsDisplay) = 12
    \<and> (\<forall>k\<in>set [''expected_goals'', ''shots_on_target'', ''ball_possession_percent'', ''total_passes'',
            ''successful_passes'', ''pass_success_rate'', ''interceptions'', ''successful_tackles'',
            ''aerial_disputes_won'', ''total_fouls'', ''yellow_cards'', ''red_cards''].
          field_text s k = Inr (text_of s k))
    \<and> (\<forall>k v. get_prop s k = Inr (Str v) \<or> get_prop s k = Inr (Num v) \<longrightarrow> text_of s k = v)
    \<and> fst (loadMatchStats net matchId w) = None\<close>
proof -
  have rq: "net (requests w) (stats_request t) = Inr res"
    using assms(3) by (simp add: stats_request_def get_request_def API_BASE_URL_def)
  have pr: "printable s (map snd stat_table)"
    using assms(6) by (simp only: stat_table_def list.map snd_conv)
  have "dom (snd (loadMatchStats net matchId w)) StatsDisplay =
      map (\<lambda>(label, k). Element
             \<lparr>tagName = ''div'', classList = [''stat-card''], valueAttr = None,
              inner = InnerHTML (''<h4>'' @ label @ ''</h4><p>'' @ text_of s k @ ''</p>'')\<rparr>) stat_table"
    using assms(1,2) rq assms(4,5) pr by (rule loadMatchStats_cards)
  moreover have "length stat_table = 12"
    by (simp add: stat_table_def)
  moreover have "\<forall>k\<in>set (map snd stat_table). field_text s k = Inr (text_of s k)"
    using pr printable_field by blast
  moreover have "\<forall>k v. get_prop s k = Inr (Str v) \<or> get_prop s k = Inr (Num v) \<longrightarrow> text_of s k = v"
    using text_of_Str text_of_Num by blast
  ultimately show ?thesis
    using loadMatchStats_never_throws [of net matchId w]
    by (simp add: stat_table_def)
qed

lemma stats_won_printable: "printable stats_won (map snd stat_table)"
  by code_simp

lemma stats_won_text:
  "text_of stats_won ''expected_goals'' = ''1.75''" "text_of stats_won ''shots_on_target'' = ''6''"
  "text_of stats_won ''ball_possession_percent'' = ''55''" "text_of stats_won ''total_passes'' = ''480''"
  "text_of stats_won ''successful_passes'' = ''410''" "text_of stats_won ''pass_success_rate'' = ''85.4''"
  "text_of stats_won ''interceptions'' = ''12''" "text_of stats_won ''successful_tackles'' = ''17''"
  "text_of stats_won ''aerial_disputes_won'' = ''9''" "text_of stats_won ''total_fouls'' = ''11''"
  "text_of stats_won ''yellow_cards'' = ''2''" "text_of stats_won ''red_cards'' = ''0''"
  by code_simp+

theorem loadMatchStats_twelve_cards_witness:
  \<open>dom (snd (loadMatchStats (serve True stats_won) (Str ''4'')
               (showMessage StatsDisplay ''Select a match to view statistics.'' blank_page))) StatsDisplay =
     [Element \<lparr>tagName = ''div'', classList = [''stat-card''], valueAttr = None,
        inner = InnerHTML ''<h4>Expected Goals (xG)</h4><p>1.75</p>''\<rparr>,
      Element \<lparr>tagName = ''div'', classList = [''stat-card''], valueAttr = None,
        inner = InnerHTML ''<h4>Shots on Target</h4><p>6</p>''\<rparr>,
      Element \<lparr>tagName = ''div'', classList = [''stat-card''], valueAttr = None,
        inner = InnerHTML ''<h4>Ball Possession (%)</h4><p>55</p>''\<rparr>,
      Element \<lparr>tagName = ''div'', classList = [''stat-card''], valueAttr = None,
        inner = InnerHTML ''<h4>Total Passes</h4><p>480</p>''\<rparr>,
      Element \<lparr>tagName = ''div'', classList = [''stat-card''], valueAttr = None,
        inner = InnerHTML ''<h4>Successful Passes</h4><p>410</p>''\<rparr>,
      Element \<lparr>tagName = ''div'', classList = [''stat-card''], valueAttr = None,
        inner = InnerHTML ''<h4>Pass Success Rate (%)</h4><p>85.4</p>''\<rparr>,
      Element \<lparr>tagName = ''div'', classList = [''stat-card''], valueAttr = None,
        inner = InnerHTML ''<h4>Interceptions</h4><p>12</p>''\<rparr>,
      Element \<lparr>tagName = ''div'', classList = [''stat-card''], valueAttr = None,
        inner = InnerHTML ''<h4>Successful Tackles</h4><p>17</p>''\<rparr>,
      Element \<lparr>tagName = ''div'', classList = [''stat-card''], valueAttr = None,
        inner = InnerHTML ''<h4>Aerial Duels Won</h4><p>9</p>''\<rparr>,
      Element \<lparr>tagName = ''div'', classList = [''stat-card''], valueAttr = None,
        inner = InnerHTML ''<h4>Total Fouls</h4><p>11</p>''\<rparr>,
      Element \<lparr>tagName = ''div'', classList = [''stat-card''], valueAttr = None,
        inner = InnerHTML ''<h4>Yellow Cards</h4><p>2</p>''\<rparr>,
      Element \<lparr>tagName = ''div'', classList = [''stat-card''], valueAttr = None,
        inner = InnerHTML ''<h4>Red Cards</h4><p>0</p>''\<rparr>]\<close>
  using loadMatchStats_twelve_cards [of "Str ''4''" "''4''" "serve True stats_won"
      "showMessage StatsDisplay ''Select a match to view statistics.'' blank_page"
      "\<lparr>ok = True, json = Inr stats_won\<rparr>" stats_won]
    stats_won_printable
  by (simp add: serve_answer stats_won_text stat_table_def)

subsection \<open>The claim about the player form\<close>

text \<open>
  Claim C2. A submission of the player form ends without an exception and sends exactly
  one creation request: a \<^verbatim>\<open>POST\<close> to \<^verbatim>\<open>/players/\<close> with the JSON content type, whose body
  holds the name, the age as \<^verbatim>\<open>parseInt\<close> reads it, the date of birth, the position, the
  jersey number as \<^verbatim>\<open>parseInt\<close> reads it, the transfer price 0 and the injury status
  \<^verbatim>\<open>FIT\<close>. When that request is answered with a success status, exactly one \<^verbatim>\<open>GET\<close> of
  the player list follows it, the inputs of the form go back to their defaults and no
  alert is shown. When it is answered with another status, or rejected, no further
  request is sent, the inputs keep their values and one alert is shown:
  \<^verbatim>\<open>Error adding player: \<close> followed by the message of the error.
\<close>

theorem submit_requests:
  assumes \<open>creation =
      \<lparr>http_method = POST, url = ''http://127.0.0.1:8000/players/'',
       headers = [(''Content-Type'', ''application/json'')],
       body = Some (Obj
         [(''name'', Str (inputs w PlayerName)),
          (''age'', if parseInt (inputs w PlayerAge) = ''NaN'' \<or> parseInt (inputs w PlayerAge) = ''Infinity''
                        \<or> parseInt (inputs w PlayerAge) = ''-Infinity''
                     then Null else Num (parseInt (inputs w PlayerAge))),
          (''date_of_birth'', Str (inputs w PlayerDob)),
          (''position'', Str (inputs w PlayerPosition)),
          (''jersey_number'', if parseInt (inputs w PlayerNumber) = ''NaN'' \<or> parseInt (inputs w PlayerNumber) = ''Infinity''
                        \<or> parseInt (inputs w PlayerNumber) = ''-Infinity''
                     then Null else Num (parseInt (inputs w PlayerNumber))),
          (''transfer_price_vnd'', Num ''0''),
          (''injury_status'', Str ''FIT'')])\<rparr>\<close>
    and \<open>refresh = \<lparr>http_method = GET, url = ''http://127.0.0.1:8000/players/'', headers = [], body = None\<rparr>\<close>
  shows \<open>fst (submit parseInt net w) = None
   \<and> (net (requests w) creation = Inr res \<and> ok res \<longrightarrow>
        requests (snd (submit parseInt net w)) = requests w @ [creation, refresh]
        \<and> inputs (snd (submit parseInt net w)) = defaults w
        \<and> alerts (snd (submit parseInt net w)) = alerts w)
   \<and> (net (requests w) creation = Inr res \<and> \<not> ok res \<longrightarrow>
        requests (snd (submit parseInt net w)) = requests w @ [creation]
        \<and> inputs (snd (submit parseInt net w)) = inputs w
        \<and> alerts (snd (submit parseInt net w)) = alerts w @ [''Error adding player: Failed to create player''])
   \<and> (net (requests w) creation = Inl e \<and> (e = TypeError m \<or> e = SyntaxError m \<or> e = Error m) \<longrightarrow>
        requests (snd (submit parseInt net w)) = requests w @ [creation]
        \<and> inputs (snd (submit parseInt net w)) = inputs w
        \<and> alerts (snd (submit parseInt net w)) = alerts w @ [''Error adding player: '' @ m])\<close>
proof -
  have c: "creation = create_request parseInt w"
    using assms(1)
    by (simp add: create_request_def player_of_form_def json_number_def API_BASE_URL_def)
  have r: "refresh = players_request"
    using assms(2) by (simp add: players_request_def get_request_def API_BASE_URL_def)
  have "e = TypeError m \<or> e = SyntaxError m \<or> e = Error m \<Longrightarrow> message e = m"
    by auto
  then show ?thesis
    unfolding c r
    using submit_never_throws [of parseInt net w] submit_created [of net w parseInt res]
      submit_refused [of net w parseInt res] submit_rejected [of net w parseInt e]
    by simp
qed

theorem submit_requests_witness:
  \<open>requests (snd (submit parseInt_example (serve True (Arr [player_An])) filled_page)) =
     [\<lparr>http_method = POST, url = ''http://127.0.0.1:8000/players/'',
       headers = [(''Content-Type'', ''application/json'')],
       body = Some (Obj
         [(''name'', Str ''An''), (''age'', Num ''21''), (''date_of_birth'', Str ''2004-05-06''),
          (''position'', Str ''GK''), (''jersey_number'', Num ''1''),
          (''transfer_price_vnd'', Num ''0''), (''injury_status'', Str ''FIT'')])\<rparr>,
      \<lparr>http_method = GET, url = ''http://127.0.0.1:8000/players/'', headers = [], body = None\<rparr>]
   \<and> inputs (snd (submit parseInt_example (serve True (Arr [player_An])) filled_page)) PlayerName = []
   \<and> alerts (snd (submit parseInt_example (serve True (Arr [player_An])) filled_page)) = []
   \<and> requests (snd (submit parseInt_example (serve False Null) blank_page)) =
     [\<lparr>http_method = POST, url = ''http://127.0.0.1:8000/players/'',
       headers = [(''Content-Type'', ''application/json'')],
       body = Some (Obj
         [(''name'', Str []), (''age'', Null), (''date_of_birth'', Str []),
          (''position'', Str []), (''jersey_number'', Null),
          (''transfer_price_vnd'', Num ''0''), (''injury_status'', Str ''FIT'')])\<rparr>]
   \<and> inputs (snd (submit parseInt_example (serve False Null) filled_page)) PlayerName = ''An''
   \<and> alerts (snd (submit parseInt_example (serve False Null) filled_page)) =
       [''Error adding player: Failed to create player'']
   \<and> length (requests (snd (submit parseInt_example offline filled_page))) = 1
   \<and> alerts (snd (submit parseInt_example offline filled_page)) = [''Error adding player: Failed to fetch'']\<close>
  using submit_requests [of _ filled_page parseInt_example _ "serve True (Arr [player_An])"
      "\<lparr>ok = True, json = Inr (Arr [player_An])\<rparr>" "Error []" "[]", OF refl refl]
    submit_requests [of _ blank_page parseInt_example _ "serve False Null"
      "\<lparr>ok = False, json = Inr Null\<rparr>" "Error []" "[]", OF refl refl]
    submit_requests [of _ filled_page parseInt_example _ "serve False Null"
      "\<lparr>ok = False, json = Inr Null\<rparr>" "Error []" "[]", OF refl refl]
    submit_requests [of _ filled_page parseInt_example _ offline
      "\<lparr>ok = False, json = Inr Null\<rparr>" "TypeError ''Failed to fetch''" "''Failed to fetch''", OF refl refl]
  by (simp add: serve_answer offline_def filled_page_def blank_page_def parseInt_example_def)

subsection \<open>The claims about failures of the read operations\<close>




subsection \<open>The claim about a player list that is no array\<close>




end
